theory Spec2Isabelle
  imports Complex_Main "HOL-Library.Multiset"
begin

section \<open>CodeMap: the dependency graph and its analyses\<close>

text \<open>
  A shallow embedding of the graph builder, the importance ranker, the module
  clusterer, the pattern detectors and the TypeScript/JavaScript parser front end of
  CodeMap. JavaScript numbers are modelled as exact reals (sizes and counters as
  naturals), strings as byte lists, and a JavaScript \<^verbatim>\<open>Map\<close> as an association list
  in insertion order with unique keys.
\<close>

subsection \<open>JavaScript maps in insertion order\<close>

type_synonym ('k, 'v) jsmap = "('k \<times> 'v) list"

definition map_has :: "('k, 'v) jsmap \<Rightarrow> 'k \<Rightarrow> bool" where
  "map_has m k = (map_of m k \<noteq> None)"

definition map_get :: "('k, 'v) jsmap \<Rightarrow> 'k \<Rightarrow> 'v option" where
  "map_get m k = map_of m k"

text \<open>\<^verbatim>\<open>Map.prototype.set\<close>: an existing key keeps its position, a new key goes last.\<close>

fun map_set :: "'k \<Rightarrow> 'v \<Rightarrow> ('k, 'v) jsmap \<Rightarrow> ('k, 'v) jsmap" where
  "map_set k v [] = [(k, v)]"
| "map_set k v (p # m) = (if fst p = k then (k, v) # m else p # map_set k v m)"

definition map_keys :: "('k, 'v) jsmap \<Rightarrow> 'k list" where
  "map_keys m = map fst m"


subsection \<open>Data model (src/types/index.ts)\<close>

datatype language = TypeScript | JavaScript | Haskell | PureScript

record import_declaration =
  imp_source :: string
  imp_names :: "string list"
  imp_isDefault :: "bool option"
  imp_isNamespace :: "bool option"
  imp_line :: "nat option"

datatype definition_kind = DFunction | DClass | DType | DInterface | DVariable | DConst

record definition_entry =
  def_name :: string
  def_type :: definition_kind
  def_line :: nat
  def_exported :: "bool option"

record parsed_file =
  pf_filePath :: string
  pf_language :: language
  pf_imports :: "import_declaration list"
  pf_exports :: "string list"
  pf_definitions :: "definition_entry list"

record node =
  node_id :: string
  node_filePath :: string
  node_language :: language
  node_definitions :: "nat option"

record edge =
  e_source :: string
  e_target :: string
  e_imports :: "string list option"

record graph =
  nodes :: "(string, node) jsmap"
  edges :: "edge list"
  adjacencyList :: "(string, string list) jsmap"
  reverseAdjacencyList :: "(string, string list) jsmap"

record ranked_file =
  rf_file :: string
  rf_score :: real
  rf_rank :: nat
  rf_inDegree :: "nat option"
  rf_outDegree :: "nat option"

record cluster =
  clusterId :: string
  cl_name :: string
  cl_files :: "string list"
  cl_description :: "string option"
  cl_cohesion :: "real option"
  cl_pattern :: "string option"


subsection \<open>Graph utilities (src/graph/types.ts)\<close>

definition createGraph :: graph where
  "createGraph = \<lparr>nodes = [], edges = [], adjacencyList = [], reverseAdjacencyList = []\<rparr>"

definition getImporters :: "graph \<Rightarrow> string \<Rightarrow> string list" where
  "getImporters g filePath =
     (case map_get (reverseAdjacencyList g) filePath of Some l \<Rightarrow> l | None \<Rightarrow> [])"

definition getImports :: "graph \<Rightarrow> string \<Rightarrow> string list" where
  "getImports g filePath =
     (case map_get (adjacencyList g) filePath of Some l \<Rightarrow> l | None \<Rightarrow> [])"

definition getInDegree :: "graph \<Rightarrow> string \<Rightarrow> nat" where
  "getInDegree g filePath = length (getImporters g filePath)"

definition getOutDegree :: "graph \<Rightarrow> string \<Rightarrow> nat" where
  "getOutDegree g filePath = length (getImports g filePath)"

subsection \<open>Decimal rendering of a count (template literals)\<close>

definition digit_char :: "nat \<Rightarrow> char" where
  "digit_char d = char_of (48 + d)"

fun string_of_nat :: "nat \<Rightarrow> string" where
  "string_of_nat n =
     (if n < 10 then [digit_char n] else string_of_nat (n div 10) @ [digit_char (n mod 10)])"

declare string_of_nat.simps [simp del]

subsection \<open>Cluster cohesion and the small-cluster merge (src/graph/clustering.ts)\<close>

text \<open>The loop of \<^verbatim>\<open>calculateCohesion\<close> over \<^verbatim>\<open>graph.edges\<close>, counting internal edges.\<close>

fun count_internal :: "string set \<Rightarrow> edge list \<Rightarrow> nat \<Rightarrow> nat" where
  "count_internal fileSet [] internalEdges = internalEdges"
| "count_internal fileSet (e # es) internalEdges =
     count_internal fileSet es
       (if e_source e \<in> fileSet \<and> e_target e \<in> fileSet then internalEdges + 1
        else internalEdges)"

definition calculateCohesion :: "graph \<Rightarrow> string list \<Rightarrow> real" where
  "calculateCohesion g files =
     (if length files \<le> 1 then 1.0
      else
        let internalEdges = count_internal (set files) (edges g) 0;
            maxPossibleEdges = length files * (length files - 1)
        in if maxPossibleEdges = 0 then 0
           else real internalEdges / real maxPossibleEdges)"

text \<open>The loop of \<^verbatim>\<open>mergeSmallClusters\<close>: the state is the pair of the large clusters
  kept so far and the files collected from the small ones.\<close>

fun merge_loop ::
  "cluster list \<Rightarrow> nat \<Rightarrow> cluster list \<times> string list \<Rightarrow> cluster list \<times> string list" where
  "merge_loop [] minSize acc = acc"
| "merge_loop (c # cs) minSize (largeClusters, smallFiles) =
     (if length (cl_files c) \<ge> minSize
      then merge_loop cs minSize (largeClusters @ [c], smallFiles)
      else merge_loop cs minSize (largeClusters, smallFiles @ cl_files c))"

definition other_cluster :: "string list \<Rightarrow> cluster" where
  "other_cluster smallFiles =
     \<lparr>clusterId = ''other'', cl_name = ''Other'', cl_files = smallFiles,
      cl_description = Some (string_of_nat (length smallFiles) @ '' miscellaneous files''),
      cl_cohesion = Some 0, cl_pattern = None\<rparr>"

definition mergeSmallClusters :: "cluster list \<Rightarrow> nat \<Rightarrow> cluster list" where
  "mergeSmallClusters clusters minSize =
     (case merge_loop clusters minSize ([], []) of
        (largeClusters, smallFiles) \<Rightarrow>
          if length smallFiles > 0 then largeClusters @ [other_cluster smallFiles]
          else largeClusters)"

text \<open>The default argument \<^verbatim>\<open>minSize = 3\<close>.\<close>

definition mergeSmallClusters_default :: "cluster list \<Rightarrow> cluster list" where
  "mergeSmallClusters_default clusters = mergeSmallClusters clusters 3"

subsection \<open>Score normalisation (src/graph/pagerank.ts)\<close>




subsection \<open>String helpers (JavaScript string methods)\<close>

definition startsWith :: "string \<Rightarrow> string \<Rightarrow> bool" where
  "startsWith s p = (take (length p) s = p)"

definition endsWith :: "string \<Rightarrow> string \<Rightarrow> bool" where
  "endsWith s p = (length p \<le> length s \<and> drop (length s - length p) s = p)"

text \<open>\<^verbatim>\<open>s.slice(0, -n)\<close> for \<open>n > 0\<close>.\<close>

definition slice_off_end :: "string \<Rightarrow> nat \<Rightarrow> string" where
  "slice_off_end s n = take (length s - n) s"

text \<open>\<^verbatim>\<open>s.split(c)\<close> for a one-character separator.\<close>

fun split_char :: "char \<Rightarrow> string \<Rightarrow> string list" where
  "split_char c [] = [[]]"
| "split_char c (x # xs) =
     (if x = c then [] # split_char c xs
      else (case split_char c xs of
              s # ss \<Rightarrow> (x # s) # ss
            | [] \<Rightarrow> [[x]]))"

text \<open>\<^verbatim>\<open>parts.join(sep)\<close>.\<close>

fun join_with :: "string \<Rightarrow> string list \<Rightarrow> string" where
  "join_with sep [] = []"
| "join_with sep [s] = s"
| "join_with sep (s # t # ts) = s @ sep @ join_with sep (t # ts)"

subsection \<open>The host platform: Node's \<^verbatim>\<open>path\<close> and \<^verbatim>\<open>fs\<close> modules\<close>

text \<open>
  The builder calls \<^verbatim>\<open>dirname\<close>, \<^verbatim>\<open>join\<close>, \<^verbatim>\<open>resolve\<close>, \<^verbatim>\<open>extname\<close> and
  \<^verbatim>\<open>relative\<close> of Node's \<^verbatim>\<open>path\<close> module, \<^verbatim>\<open>existsSync\<close> of \<^verbatim>\<open>fs\<close> and
  \<^verbatim>\<open>process.cwd()\<close>. They belong to the runtime, not to the repository, so the model
  takes them as a record of functions; \<open>posix_platform\<close> below is the POSIX instance
  used for concrete runs.
\<close>

record platform =
  p_cwd :: string
  p_existsSync :: "string \<Rightarrow> bool"
  p_dirname :: "string \<Rightarrow> string"
  p_join :: "string \<Rightarrow> string \<Rightarrow> string"
  p_resolve :: "string \<Rightarrow> string \<Rightarrow> string"
  p_extname :: "string \<Rightarrow> string"
  p_relative :: "string \<Rightarrow> string \<Rightarrow> string"
  p_basename :: "string \<Rightarrow> string"

definition slash :: char where
  "slash = CHR ''/''"

definition dot :: char where
  "dot = CHR ''.''"

definition posix_isAbsolute :: "string \<Rightarrow> bool" where
  "posix_isAbsolute p = (case p of [] \<Rightarrow> False | c # _ \<Rightarrow> c = slash)"

text \<open>Node's \<^verbatim>\<open>normalizeString\<close> on the list of segments: empty and \<^verbatim>\<open>.\<close> segments
  vanish, \<^verbatim>\<open>..\<close> removes the segment before it, or stays when nothing can be removed
  and the path is relative.\<close>

fun norm_segments :: "bool \<Rightarrow> string list \<Rightarrow> string list \<Rightarrow> string list" where
  "norm_segments allowAboveRoot [] acc = acc"
| "norm_segments allowAboveRoot (s # ss) acc =
     (if s = [] \<or> s = ''.'' then norm_segments allowAboveRoot ss acc
      else if s = ''..'' then
        (if acc \<noteq> [] \<and> last acc \<noteq> ''..'' then norm_segments allowAboveRoot ss (butlast acc)
         else if allowAboveRoot then norm_segments allowAboveRoot ss (acc @ [''..''])
         else norm_segments allowAboveRoot ss acc)
      else norm_segments allowAboveRoot ss (acc @ [s]))"

definition normalizeString :: "string \<Rightarrow> bool \<Rightarrow> string" where
  "normalizeString p allowAboveRoot =
     join_with ''/'' (norm_segments allowAboveRoot (split_char slash p) [])"

text \<open>\<^verbatim>\<open>path.resolve\<close>: the arguments are read from the right, the working directory
  last, until an absolute one is found.\<close>

fun resolve_args :: "string list \<Rightarrow> string \<Rightarrow> string \<times> bool" where
  "resolve_args [] acc = (acc, False)"
| "resolve_args (p # ps) acc =
     (if p = [] then resolve_args ps acc
      else if posix_isAbsolute p then (p @ ''/'' @ acc, True)
      else resolve_args ps (p @ ''/'' @ acc))"

definition posix_resolve_list :: "string \<Rightarrow> string list \<Rightarrow> string" where
  "posix_resolve_list cwd args =
     (case resolve_args (rev args @ [cwd]) [] of
        (resolvedPath, resolvedAbsolute) \<Rightarrow>
          let n = normalizeString resolvedPath (\<not> resolvedAbsolute)
          in if resolvedAbsolute then ''/'' @ n
             else if n \<noteq> [] then n else ''.'')"

definition posix_resolve :: "string \<Rightarrow> string \<Rightarrow> string \<Rightarrow> string" where
  "posix_resolve cwd a b = posix_resolve_list cwd [a, b]"

definition posix_normalize :: "string \<Rightarrow> string" where
  "posix_normalize p =
     (if p = [] then ''.''
      else
        let isAbsolute = posix_isAbsolute p;
            trailingSeparator = (last p = slash);
            n = normalizeString p (\<not> isAbsolute)
        in if n = [] then (if isAbsolute then ''/'' else if trailingSeparator then ''./'' else ''.'')
           else (if isAbsolute then ''/'' else []) @ n @ (if trailingSeparator then ''/'' else []))"

definition posix_join :: "string \<Rightarrow> string \<Rightarrow> string" where
  "posix_join a b =
     (let joined = join_with ''/'' (filter (\<lambda>s. s \<noteq> []) [a, b])
      in if joined = [] then ''.'' else posix_normalize joined)"

text \<open>\<^verbatim>\<open>path.dirname\<close>: scanning from the right over the characters after the first,
  trailing slashes and then the last component are skipped; what is left, up to the
  slash before that component, is the directory.\<close>

definition posix_dirname :: "string \<Rightarrow> string" where
  "posix_dirname p =
     (case p of
        [] \<Rightarrow> ''.''
      | c # cs \<Rightarrow>
          let hasRoot = (c = slash);
              kept = rev (dropWhile (\<lambda>x. x \<noteq> slash) (dropWhile (\<lambda>x. x = slash) (rev cs)))
          in if kept = [] then (if hasRoot then ''/'' else ''.'')
             else if hasRoot \<and> length kept = 1 then ''//''
             else c # butlast kept)"

text \<open>The last component of a path, trailing slashes ignored.\<close>

definition last_component :: "string \<Rightarrow> string" where
  "last_component p = rev (takeWhile (\<lambda>x. x \<noteq> slash) (dropWhile (\<lambda>x. x = slash) (rev p)))"

definition posix_basename :: "string \<Rightarrow> string" where
  "posix_basename p = last_component p"

text \<open>\<^verbatim>\<open>path.extname\<close>: from the last dot of the last component, unless there is no
  dot, the dot is the component's first character, or the component is \<^verbatim>\<open>..\<close>.\<close>

definition posix_extname :: "string \<Rightarrow> string" where
  "posix_extname p =
     (let b = last_component p;
          e = rev (takeWhile (\<lambda>x. x \<noteq> dot) (rev b))
      in if dot \<notin> set b then []
         else if length e + 1 = length b then []
         else if b = ''..'' then []
         else dot # e)"

fun strip_common :: "string list \<Rightarrow> string list \<Rightarrow> string list \<times> string list" where
  "strip_common (a # as) (b # bs) = (if a = b then strip_common as bs else (a # as, b # bs))"
| "strip_common as bs = (as, bs)"

definition posix_relative :: "string \<Rightarrow> string \<Rightarrow> string \<Rightarrow> string" where
  "posix_relative cwd from to =
     (if from = to then []
      else
        let f = posix_resolve_list cwd [from];
            t = posix_resolve_list cwd [to]
        in if f = t then []
           else (case strip_common (filter (\<lambda>s. s \<noteq> []) (split_char slash f))
                                   (filter (\<lambda>s. s \<noteq> []) (split_char slash t)) of
                   (fs, ts) \<Rightarrow> join_with ''/'' (replicate (length fs) ''..'' @ ts)))"

definition posix_platform :: "string \<Rightarrow> (string \<Rightarrow> bool) \<Rightarrow> platform" where
  "posix_platform cwd fs =
     \<lparr>p_cwd = cwd, p_existsSync = fs, p_dirname = posix_dirname, p_join = posix_join,
      p_resolve = posix_resolve cwd, p_extname = posix_extname,
      p_relative = posix_relative cwd, p_basename = posix_basename\<rparr>"

subsection \<open>The graph builder (src/graph/builder.ts)\<close>

record builder =
  b_graph :: graph
  filePathMap :: "(string, string) jsmap"
  b_repoRoot :: string

text \<open>The constructor: \<^verbatim>\<open>repoRoot || process.cwd()\<close>.\<close>

definition new_builder :: "platform \<Rightarrow> string option \<Rightarrow> builder" where
  "new_builder pl rootOpt =
     \<lparr>b_graph = createGraph, filePathMap = [],
      b_repoRoot = (case rootOpt of None \<Rightarrow> p_cwd pl | Some r \<Rightarrow> if r = [] then p_cwd pl else r)\<rparr>"

text \<open>\<^verbatim>\<open>replace(/\\/g, '/').replace(/\//g, '.')\<close> on the key.\<close>

definition module_key :: "string \<Rightarrow> string" where
  "module_key s =
     map (\<lambda>c. if c = slash then dot else c) (map (\<lambda>c. if c = CHR 0x5C then slash else c) s)"

definition indexFile :: "platform \<Rightarrow> builder \<Rightarrow> string \<Rightarrow> builder" where
  "indexFile pl b filePath =
     (let m1 = map_set filePath filePath (filePathMap b);
          relPath = p_relative pl (b_repoRoot b) filePath;
          m2 = map_set relPath filePath m1;
          ext = p_extname pl filePath
      in if ext \<noteq> [] then
           let withoutExt = slice_off_end filePath (length ext);
               m3 = map_set withoutExt filePath m2;
               relWithoutExt = slice_off_end relPath (length ext);
               m4 = map_set relWithoutExt filePath m3;
               moduleKey = module_key relWithoutExt;
               m5 = map_set moduleKey filePath m4
           in if startsWith moduleKey ''src.''
              then b\<lparr>filePathMap := map_set (drop 4 moduleKey) filePath m5\<rparr>
              else b\<lparr>filePathMap := m5\<rparr>
         else b\<lparr>filePathMap := m2\<rparr>)"

definition addNode :: "platform \<Rightarrow> builder \<Rightarrow> parsed_file \<Rightarrow> builder" where
  "addNode pl b parsedFile =
     (let n = \<lparr>node_id = pf_filePath parsedFile, node_filePath = pf_filePath parsedFile,
               node_language = pf_language parsedFile,
               node_definitions = Some (length (pf_definitions parsedFile))\<rparr>;
          g = b_graph b;
          b1 = b\<lparr>b_graph := g\<lparr>nodes := map_set (pf_filePath parsedFile) n (nodes g)\<rparr>\<rparr>
      in indexFile pl b1 (pf_filePath parsedFile))"

text \<open>\<^verbatim>\<open>if (!m.has(k)) m.set(k, []); m.get(k)!.push(v)\<close>.\<close>

definition push_to :: "string \<Rightarrow> string \<Rightarrow> (string, string list) jsmap \<Rightarrow> (string, string list) jsmap" where
  "push_to k v m =
     (let m1 = (if \<not> map_has m k then map_set k [] m else m)
      in case map_get m1 k of
           Some l \<Rightarrow> map_set k (l @ [v]) m1
         | None \<Rightarrow> m1)"

definition addEdge :: "builder \<Rightarrow> string \<Rightarrow> string \<Rightarrow> string list option \<Rightarrow> builder" where
  "addEdge b src tgt imps =
     (let g = b_graph b in
      if \<not> map_has (nodes g) src \<or> \<not> map_has (nodes g) tgt then b
      else if find (\<lambda>e. e_source e = src \<and> e_target e = tgt) (edges g) \<noteq> None then b
      else
        b\<lparr>b_graph := g\<lparr>edges := edges g @ [\<lparr>e_source = src, e_target = tgt, e_imports = imps\<rparr>],
                         adjacencyList := push_to src tgt (adjacencyList g),
                         reverseAdjacencyList := push_to tgt src (reverseAdjacencyList g)\<rparr>\<rparr>)"

definition extensions :: "string list" where
  "extensions = [''.ts'', ''.tsx'', ''.js'', ''.jsx'', ''.mjs'', ''.cjs'', ''.purs'', ''.hs'', ''.lhs'']"

text \<open>The first candidate that is a key of the index, as the \<^verbatim>\<open>for\<close> loops with an early
  \<^verbatim>\<open>return\<close> find it.\<close>

fun first_indexed :: "(string, string) jsmap \<Rightarrow> string list \<Rightarrow> string option" where
  "first_indexed m [] = None"
| "first_indexed m (c # cs) = (if map_has m c then map_get m c else first_indexed m cs)"

text \<open>The first candidate that exists on disk; the candidate itself is returned.\<close>

fun first_existing :: "(string \<Rightarrow> bool) \<Rightarrow> string list \<Rightarrow> string option" where
  "first_existing ex [] = None"
| "first_existing ex (c # cs) = (if ex c then Some c else first_existing ex cs)"

definition resolveImport :: "platform \<Rightarrow> builder \<Rightarrow> string \<Rightarrow> string \<Rightarrow> string option" where
  "resolveImport pl b importPath fromFile =
     (let m = filePathMap b in
      if map_has m importPath then map_get m importPath
      else if map_has m importPath then map_get m importPath
      else
        let relativeResult =
          (if startsWith importPath ''.'' then
             let fromDir = p_dirname pl fromFile;
                 pathToResolve =
                   (if endsWith importPath ''.js'' then slice_off_end importPath 3 else importPath);
                 resolved = p_resolve pl fromDir pathToResolve
             in if map_has m resolved then map_get m resolved
                else (case first_indexed m (map (\<lambda>ext. resolved @ ext) extensions) of
                        Some r \<Rightarrow> Some r
                      | None \<Rightarrow>
                     (case first_indexed m
                             (map (\<lambda>ext. p_join pl resolved (''index'' @ ext)) extensions) of
                        Some r \<Rightarrow> Some r
                      | None \<Rightarrow>
                     (case first_existing (p_existsSync pl)
                             (map (\<lambda>ext. resolved @ ext) extensions) of
                        Some r \<Rightarrow> Some r
                      | None \<Rightarrow>
                          if p_existsSync pl (p_join pl resolved ''index.ts'')
                          then Some (p_join pl resolved ''index.ts'') else None)))
           else None)
        in case relativeResult of
             Some r \<Rightarrow> Some r
           | None \<Rightarrow> if map_has m importPath then map_get m importPath else None)"

text \<open>\<^verbatim>\<open>processImports\<close>: one \<^verbatim>\<open>addEdge\<close> per import that resolves to a non-empty
  path (\<^verbatim>\<open>if (target)\<close>).\<close>

fun processImports_loop ::
  "platform \<Rightarrow> string \<Rightarrow> import_declaration list \<Rightarrow> builder \<Rightarrow> builder" where
  "processImports_loop pl filePath [] b = b"
| "processImports_loop pl filePath (imp # imps) b =
     (case resolveImport pl b (imp_source imp) filePath of
        Some target \<Rightarrow>
          if target \<noteq> []
          then processImports_loop pl filePath imps (addEdge b filePath target (Some (imp_names imp)))
          else processImports_loop pl filePath imps b
      | None \<Rightarrow> processImports_loop pl filePath imps b)"

definition processImports :: "platform \<Rightarrow> builder \<Rightarrow> parsed_file \<Rightarrow> builder" where
  "processImports pl b parsedFile =
     processImports_loop pl (pf_filePath parsedFile) (pf_imports parsedFile) b"

definition build :: "builder \<Rightarrow> graph" where
  "build b = b_graph b"

definition buildGraph :: "platform \<Rightarrow> parsed_file list \<Rightarrow> string option \<Rightarrow> graph" where
  "buildGraph pl parsedFiles rootOpt =
     build (fold (\<lambda>pf b. processImports pl b pf) parsedFiles
             (fold (\<lambda>pf b. addNode pl b pf) parsedFiles (new_builder pl rootOpt)))"

text \<open>The public methods of the builder, as operations a client may call in any order.\<close>

datatype builder_op =
    AddNode parsed_file
  | AddEdge string string "string list option"
  | ProcessImports parsed_file

fun apply_op :: "platform \<Rightarrow> builder_op \<Rightarrow> builder \<Rightarrow> builder" where
  "apply_op pl (AddNode pf) b = addNode pl b pf"
| "apply_op pl (AddEdge s t imps) b = addEdge b s t imps"
| "apply_op pl (ProcessImports pf) b = processImports pl b pf"

definition run_ops :: "platform \<Rightarrow> string option \<Rightarrow> builder_op list \<Rightarrow> builder" where
  "run_ops pl rootOpt ops = fold (apply_op pl) ops (new_builder pl rootOpt)"

subsection \<open>Well-formed graphs\<close>

definition wf_graph :: "graph \<Rightarrow> bool" where
  "wf_graph g =
     ((\<forall>e\<in>set (edges g). map_has (nodes g) (e_source e) \<and> map_has (nodes g) (e_target e))
      \<and> distinct (map (\<lambda>e. (e_source e, e_target e)) (edges g)))"

subsection \<open>PageRank (src/graph/pagerank.ts)\<close>

text \<open>\<^verbatim>\<open>scores.get(k) || 0\<close>: the stored number, and 0 for a missing key (a stored 0 is
  falsy and also yields 0).\<close>

definition get_or_zero :: "(string, real) jsmap \<Rightarrow> string \<Rightarrow> real" where
  "get_or_zero scores k = (case map_get scores k of Some s \<Rightarrow> s | None \<Rightarrow> 0)"

text \<open>The loop over the importers of one node, accumulating into \<^verbatim>\<open>score\<close>.\<close>

fun importer_loop ::
  "graph \<Rightarrow> real \<Rightarrow> (string, real) jsmap \<Rightarrow> string list \<Rightarrow> real \<Rightarrow> real" where
  "importer_loop g dampingFactor scores [] score = score"
| "importer_loop g dampingFactor scores (importer # importers) score =
     (let importerScore = get_or_zero scores importer;
          importerOutDegree = getOutDegree g importer
      in importer_loop g dampingFactor scores importers
           (if importerOutDegree > 0
            then score + dampingFactor * (importerScore / real importerOutDegree)
            else score))"

definition node_score :: "graph \<Rightarrow> real \<Rightarrow> nat \<Rightarrow> (string, real) jsmap \<Rightarrow> string \<Rightarrow> real" where
  "node_score g dampingFactor n scores nd =
     importer_loop g dampingFactor scores
       (case map_get (reverseAdjacencyList g) nd of Some l \<Rightarrow> l | None \<Rightarrow> [])
       ((1 - dampingFactor) / real n)"

text \<open>One round: \<^verbatim>\<open>newScores\<close> is filled from the old scores for every node, then
  copied into \<^verbatim>\<open>scores\<close>.\<close>

definition pagerank_round ::
  "graph \<Rightarrow> real \<Rightarrow> string list \<Rightarrow> (string, real) jsmap \<Rightarrow> (string, real) jsmap" where
  "pagerank_round g dampingFactor nds scores =
     (let newScores =
            fold (\<lambda>nd m. map_set nd (node_score g dampingFactor (length nds) scores nd) m) nds []
      in fold (\<lambda>(nd, score) m. map_set nd score m) newScores scores)"

fun pagerank_iterate ::
  "graph \<Rightarrow> real \<Rightarrow> string list \<Rightarrow> nat \<Rightarrow> (string, real) jsmap \<Rightarrow> (string, real) jsmap" where
  "pagerank_iterate g dampingFactor nds 0 scores = scores"
| "pagerank_iterate g dampingFactor nds (Suc iterations) scores =
     pagerank_iterate g dampingFactor nds iterations (pagerank_round g dampingFactor nds scores)"

text \<open>\<^verbatim>\<open>sort((a, b) => b.score - a.score)\<close>: a stable sort by descending score.\<close>

definition sort_by_score_desc :: "ranked_file list \<Rightarrow> ranked_file list" where
  "sort_by_score_desc rfs = sort_key (\<lambda>rf. - rf_score rf) rfs"

definition assign_ranks :: "ranked_file list \<Rightarrow> ranked_file list" where
  "assign_ranks rfs = map (\<lambda>(index, rf). rf\<lparr>rf_rank := index + 1\<rparr>) (enumerate 0 rfs)"

definition pageRank :: "graph \<Rightarrow> nat \<Rightarrow> real \<Rightarrow> ranked_file list" where
  "pageRank g iterations dampingFactor =
     (let nds = map_keys (nodes g);
          n = length nds
      in if n = 0 then []
         else
           let initialScore = 1.0 / real n;
               scores0 = fold (\<lambda>nd m. map_set nd initialScore m) nds [];
               scores = pagerank_iterate g dampingFactor nds iterations scores0;
               rankedFiles =
                 map (\<lambda>file. \<lparr>rf_file = file, rf_score = get_or_zero scores file, rf_rank = 0,
                               rf_inDegree = Some (getInDegree g file),
                               rf_outDegree = Some (getOutDegree g file)\<rparr>) nds
           in assign_ranks (sort_by_score_desc rankedFiles))"

text \<open>The default arguments \<^verbatim>\<open>iterations = 20\<close> and \<^verbatim>\<open>dampingFactor = 0.85\<close>.\<close>

definition pageRank_default :: "graph \<Rightarrow> ranked_file list" where
  "pageRank_default g = pageRank g 20 0.85"

subsection \<open>Regular expressions (the subset the parsers use)\<close>

text \<open>
  A backtracking matcher in the order of JavaScript's: the list of results of
  \<open>rx_run\<close> holds every way the expression can match a prefix of the input, the
  preferred one first (alternatives left to right, a star greedy), each with the rest
  of the input and the capture groups. Strings are ASCII; \<^verbatim>\<open>\s\<close> is the ASCII white
  space, and \<^verbatim>\<open>.\<close> any character but a line break.
\<close>

datatype rx =
    RSat "char \<Rightarrow> bool"
  | REps
  | RSeq rx rx
  | RAlt rx rx
  | RStar rx
  | RGroup nat rx

type_synonym captures = "(nat \<times> string) list"

function rx_run :: "rx \<Rightarrow> string \<times> captures \<Rightarrow> (string \<times> captures) list" where
  "rx_run (RSat P) (s, c) = (case s of [] \<Rightarrow> [] | x # xs \<Rightarrow> if P x then [(xs, c)] else [])"
| "rx_run REps (s, c) = [(s, c)]"
| "rx_run (RSeq a b) (s, c) = concat (map (rx_run b) (rx_run a (s, c)))"
| "rx_run (RAlt a b) (s, c) = rx_run a (s, c) @ rx_run b (s, c)"
| "rx_run (RStar a) (s, c) =
     concat (map (rx_run (RStar a))
                 (filter (\<lambda>st. length (fst st) < length s) (rx_run a (s, c))))
     @ [(s, c)]"
| "rx_run (RGroup i a) (s, c) =
     map (\<lambda>st. (fst st, (i, take (length s - length (fst st)) s) # snd st)) (rx_run a (s, c))"
  by pat_completeness auto
termination
  by (relation "inv_image (less_than <*lex*> less_than) (\<lambda>(r, st). (size r, length (fst st)))")
     auto

text \<open>\<^verbatim>\<open>line.match(/^.../)\<close>: anchored at the start of the line.\<close>

definition rx_match_start :: "rx \<Rightarrow> string \<Rightarrow> captures option" where
  "rx_match_start r s = (case rx_run r (s, []) of [] \<Rightarrow> None | st # _ \<Rightarrow> Some (snd st))"

text \<open>\<^verbatim>\<open>line.match(/.../)\<close>: the leftmost position at which the expression matches.\<close>

fun rx_search :: "rx \<Rightarrow> string \<Rightarrow> captures option" where
  "rx_search r [] = rx_match_start r []"
| "rx_search r (x # xs) =
     (case rx_match_start r (x # xs) of Some c \<Rightarrow> Some c | None \<Rightarrow> rx_search r xs)"

text \<open>The text of a capture group of a match; the latest binding of the group counts.\<close>

definition capture :: "captures \<Rightarrow> nat \<Rightarrow> string" where
  "capture c i = (case map_of c i of Some s \<Rightarrow> s | None \<Rightarrow> [])"

definition capture_matched :: "captures \<Rightarrow> nat \<Rightarrow> bool" where
  "capture_matched c i = (map_of c i \<noteq> None)"

fun rx_lit :: "string \<Rightarrow> rx" where
  "rx_lit [] = REps"
| "rx_lit (x # xs) = RSeq (RSat (\<lambda>c. c = x)) (rx_lit xs)"

definition rx_plus :: "rx \<Rightarrow> rx" where
  "rx_plus r = RSeq r (RStar r)"

fun rx_seq :: "rx list \<Rightarrow> rx" where
  "rx_seq [] = REps"
| "rx_seq [r] = r"
| "rx_seq (r # rs) = RSeq r (rx_seq rs)"

fun rx_alt :: "rx list \<Rightarrow> rx" where
  "rx_alt [] = RSat (\<lambda>c. False)"
| "rx_alt [r] = r"
| "rx_alt (r # rs) = RAlt r (rx_alt rs)"

definition is_space :: "char \<Rightarrow> bool" where
  "is_space c = (c \<in> {CHR '' '', CHR 0x09, CHR 0x0A, CHR 0x0B, CHR 0x0C, CHR 0x0D})"

definition is_word :: "char \<Rightarrow> bool" where
  "is_word c =
     (let n = (of_char c :: nat)
      in (65 \<le> n \<and> n \<le> 90) \<or> (97 \<le> n \<and> n \<le> 122) \<or> (48 \<le> n \<and> n \<le> 57) \<or> n = 95)"

definition is_quote :: "char \<Rightarrow> bool" where
  "is_quote c = (c = CHR 0x27 \<or> c = CHR 0x22)"

definition rx_space :: rx where
  "rx_space = RSat is_space"

definition rx_any :: rx where
  "rx_any = RSat (\<lambda>c. c \<noteq> CHR 0x0A \<and> c \<noteq> CHR 0x0D)"

text \<open>\<^verbatim>\<open>['"]([^'"]+)['"]\<close> with the given group number.\<close>

definition rx_quoted :: "nat \<Rightarrow> rx" where
  "rx_quoted i =
     rx_seq [RSat is_quote, RGroup i (rx_plus (RSat (\<lambda>c. \<not> is_quote c))), RSat is_quote]"

text \<open>\<^verbatim>\<open>[A-Za-z0-9_]+\<close> as a group.\<close>

definition rx_ident :: "nat \<Rightarrow> rx" where
  "rx_ident i = RGroup i (rx_plus (RSat is_word))"

subsection \<open>More string methods\<close>

definition trim :: "string \<Rightarrow> string" where
  "trim s = rev (dropWhile is_space (rev (dropWhile is_space s)))"

text \<open>\<^verbatim>\<open>[...new Set(xs)]\<close>: the first occurrence of every element, in order.\<close>

fun dedup_from :: "'a list \<Rightarrow> 'a list \<Rightarrow> 'a list" where
  "dedup_from seen [] = []"
| "dedup_from seen (x # xs) =
     (if x \<in> set seen then dedup_from seen xs else x # dedup_from (seen @ [x]) xs)"

definition dedup :: "'a list \<Rightarrow> 'a list" where
  "dedup xs = dedup_from [] xs"

text \<open>\<^verbatim>\<open>xs.filter(Boolean)\<close> on strings drops the empty ones.\<close>

definition filter_nonempty :: "string list \<Rightarrow> string list" where
  "filter_nonempty xs = filter (\<lambda>s. s \<noteq> []) xs"

text \<open>\<^verbatim>\<open>s.slice(1, -1)\<close>.\<close>

definition slice_1_m1 :: "string \<Rightarrow> string" where
  "slice_1_m1 s = drop 1 (take (length s - 1) s)"

text \<open>Lines with their 1-based numbers, as \<^verbatim>\<open>content.split('\n').forEach((line, idx) => ...)\<close>
  numbers them by \<^verbatim>\<open>idx + 1\<close>.\<close>

definition numbered_lines :: "string \<Rightarrow> (nat \<times> string) list" where
  "numbered_lines content = enumerate 1 (split_char (CHR 0x0A) content)"

subsection \<open>Parser utilities (src/parsers/base.ts)\<close>

definition normalizeImportPath :: "string \<Rightarrow> string \<Rightarrow> string" where
  "normalizeImportPath importPath currentFilePath =
     (if \<not> startsWith importPath ''.'' \<and> \<not> startsWith importPath ''/'' then importPath
      else if startsWith importPath ''/'' then importPath
      else importPath)"

definition isExternalImport :: "string \<Rightarrow> bool" where
  "isExternalImport importPath =
     (\<not> startsWith importPath ''.'' \<and> \<not> startsWith importPath ''/'')"

subsection \<open>CommonJS extraction (src/parsers/typescript.ts)\<close>

record extraction =
  ex_imports :: "import_declaration list"
  ex_exports :: "string list"
  ex_definitions :: "definition_entry list"

definition plain_import :: "string \<Rightarrow> string list \<Rightarrow> nat \<Rightarrow> import_declaration" where
  "plain_import src names line =
     \<lparr>imp_source = src, imp_names = names, imp_isDefault = None, imp_isNamespace = None,
      imp_line = Some line\<rparr>"

text \<open>\<^verbatim>\<open>/module\.exports\s*=\s*\{([^}]+)\}/\<close>\<close>

definition rx_moduleExportsObject :: rx where
  "rx_moduleExportsObject =
     rx_seq [rx_lit ''module.exports'', RStar rx_space, rx_lit ''='', RStar rx_space, rx_lit ''{'',
             RGroup 1 (rx_plus (RSat (\<lambda>c. c \<noteq> CHR ''}''))), rx_lit ''}'']"

text \<open>\<^verbatim>\<open>/module\.exports\s*=\s*([A-Za-z0-9_]+)/\<close>\<close>

definition rx_moduleExportsAssign :: rx where
  "rx_moduleExportsAssign =
     rx_seq [rx_lit ''module.exports'', RStar rx_space, rx_lit ''='', RStar rx_space, rx_ident 1]"

text \<open>\<^verbatim>\<open>/exports\.([A-Za-z0-9_]+)\s*=/\<close>\<close>

definition rx_exportsAssign :: rx where
  "rx_exportsAssign = rx_seq [rx_lit ''exports.'', rx_ident 1, RStar rx_space, rx_lit ''='']"

text \<open>\<^verbatim>\<open>/require\(['"]([^'"]+)['"]\)/\<close>\<close>

definition rx_require :: rx where
  "rx_require = rx_seq [rx_lit ''require('', rx_quoted 1, rx_lit '')'']"

definition first_of_split :: "char \<Rightarrow> string \<Rightarrow> string" where
  "first_of_split c s = (case split_char c s of [] \<Rightarrow> [] | x # _ \<Rightarrow> x)"

text \<open>The body of the \<^verbatim>\<open>forEach\<close> of \<^verbatim>\<open>extractCommonJS\<close> for one line.\<close>

definition commonjs_line :: "string \<Rightarrow> nat \<times> string \<Rightarrow> extraction \<Rightarrow> extraction" where
  "commonjs_line filePath nl acc =
     (case nl of (lineNo, line) \<Rightarrow>
      let acc1 =
            (case rx_search rx_moduleExportsObject line of
               Some m \<Rightarrow>
                 acc\<lparr>ex_exports := ex_exports acc @
                        filter_nonempty
                          (map (\<lambda>s. trim (first_of_split (CHR '':'') s))
                               (split_char (CHR '','') (capture m 1)))\<rparr>
             | None \<Rightarrow> acc);
          acc2 =
            (case rx_search rx_moduleExportsAssign line of
               Some m \<Rightarrow>
                 acc1\<lparr>ex_exports := ex_exports acc1 @ [''default''],
                       ex_definitions := ex_definitions acc1 @
                         [\<lparr>def_name = capture m 1, def_type = DVariable, def_line = lineNo,
                           def_exported = None\<rparr>]\<rparr>
             | None \<Rightarrow> acc1);
          acc3 =
            (case rx_search rx_exportsAssign line of
               Some m \<Rightarrow> acc2\<lparr>ex_exports := ex_exports acc2 @ [capture m 1]\<rparr>
             | None \<Rightarrow> acc2)
      in (case rx_search rx_require line of
            Some m \<Rightarrow>
              acc3\<lparr>ex_imports := ex_imports acc3 @
                      [plain_import (normalizeImportPath (capture m 1) filePath) [] lineNo]\<rparr>
          | None \<Rightarrow> acc3))"

definition extractCommonJS :: "string \<Rightarrow> string \<Rightarrow> extraction" where
  "extractCommonJS content filePath =
     fold (commonjs_line filePath) (numbered_lines content)
       \<lparr>ex_imports = [], ex_exports = [], ex_definitions = []\<rparr>"

subsection \<open>Syntax trees of tree-sitter\<close>

text \<open>
  A node of the tree that tree-sitter returns, with what the extractors read of it:
  its type, its source text, whether it is a named node, the row it starts on, the
  field name under which its parent holds it, and its children in order.
\<close>

datatype syntax_node =
  SyntaxNode (sn_type: string) (sn_text: string) (sn_named: bool) (sn_row: nat)
    (sn_field: "string option") (sn_children: "syntax_node list")

definition nth_opt :: "'a list \<Rightarrow> nat \<Rightarrow> 'a option" where
  "nth_opt xs i = (if i < length xs then Some (xs ! i) else None)"

definition child :: "syntax_node \<Rightarrow> nat \<Rightarrow> syntax_node option" where
  "child n i = nth_opt (sn_children n) i"

definition namedChildren :: "syntax_node \<Rightarrow> syntax_node list" where
  "namedChildren n = filter sn_named (sn_children n)"

definition namedChild :: "syntax_node \<Rightarrow> nat \<Rightarrow> syntax_node option" where
  "namedChild n i = nth_opt (namedChildren n) i"

definition childForFieldName :: "syntax_node \<Rightarrow> string \<Rightarrow> syntax_node option" where
  "childForFieldName n f = find (\<lambda>c. sn_field c = Some f) (sn_children n)"

subsection \<open>The TypeScript/JavaScript parser (src/parsers/typescript.ts)\<close>

fun findNodesByType :: "syntax_node \<Rightarrow> string \<Rightarrow> syntax_node list" where
  "findNodesByType (SyntaxNode ty tx nm row fld cs) t =
     (if ty = t then [SyntaxNode ty tx nm row fld cs] else [])
     @ concat (map (\<lambda>c. findNodesByType c t) cs)"

definition quoted_by :: "string \<Rightarrow> string \<Rightarrow> bool" where
  "quoted_by q text = (startsWith text q \<and> endsWith text q)"

definition extractStringLiteral :: "syntax_node option \<Rightarrow> string option" where
  "extractStringLiteral nd =
     (case nd of
        None \<Rightarrow> None
      | Some n \<Rightarrow>
          let text = sn_text n
          in if quoted_by [CHR 0x22] text \<or> quoted_by [CHR 0x27] text \<or> quoted_by [CHR 0x60] text
             then Some (slice_1_m1 text) else None)"

definition extractNameFromDeclaration :: "syntax_node \<Rightarrow> string option" where
  "extractNameFromDeclaration n = map_option sn_text (childForFieldName n ''name'')"

text \<open>The names of the \<^verbatim>\<open>import_specifier\<close> nodes below a \<^verbatim>\<open>named_imports\<close> node.\<close>

definition import_specifier_names :: "syntax_node \<Rightarrow> string list" where
  "import_specifier_names n =
     concat (map (\<lambda>spec. case namedChild spec 0 of Some name \<Rightarrow> [sn_text name] | None \<Rightarrow> [])
                 (findNodesByType n ''import_specifier''))"

text \<open>The names of the \<^verbatim>\<open>export_specifier\<close> nodes below an \<^verbatim>\<open>export_clause\<close> node.\<close>

definition export_specifier_names :: "syntax_node \<Rightarrow> string list" where
  "export_specifier_names n =
     concat (map (\<lambda>spec. case childForFieldName spec ''name'' of
                            Some name \<Rightarrow> [sn_text name] | None \<Rightarrow> [])
                 (findNodesByType n ''export_specifier''))"

text \<open>One named child of an \<^verbatim>\<open>import_clause\<close>; the state is \<^verbatim>\<open>(names, isDefault,
  isNamespace)\<close>.\<close>

definition clause_child ::
  "syntax_node \<Rightarrow> string list \<times> bool \<times> bool \<Rightarrow> string list \<times> bool \<times> bool" where
  "clause_child c st =
     (case st of (names, isDefault, isNamespace) \<Rightarrow>
        if sn_type c = ''named_imports''
        then (names @ import_specifier_names c, isDefault, isNamespace)
        else if sn_type c = ''identifier'' then (names @ [sn_text c], True, isNamespace)
        else if sn_type c = ''namespace_import''
        then (case namedChild c 0 of
                Some name \<Rightarrow> (names @ [sn_text name], isDefault, True)
              | None \<Rightarrow> (names, isDefault, isNamespace))
        else (names, isDefault, isNamespace))"

text \<open>One \<^verbatim>\<open>import_statement\<close>; \<open>None\<close> is the \<^verbatim>\<open>continue\<close> on a missing or empty
  source.\<close>

definition import_of_statement :: "string \<Rightarrow> syntax_node \<Rightarrow> import_declaration option" where
  "import_of_statement filePath importNode =
     (case extractStringLiteral (namedChild importNode 1) of
        None \<Rightarrow> None
      | Some src \<Rightarrow>
          if src = [] then None
          else
            (case (case namedChild importNode 0 of
                     Some importClause \<Rightarrow>
                       if sn_type importClause = ''import_clause''
                       then fold clause_child (namedChildren importClause) ([], False, False)
                       else ([], False, False)
                   | None \<Rightarrow> ([], False, False)) of
               (names, isDefault, isNamespace) \<Rightarrow>
                 Some \<lparr>imp_source = normalizeImportPath src filePath, imp_names = names,
                       imp_isDefault = Some isDefault, imp_isNamespace = Some isNamespace,
                       imp_line = Some (sn_row importNode + 1)\<rparr>))"

text \<open>One \<^verbatim>\<open>export_statement\<close> read as a re-export: its last named child is the source
  (none when the statement has no named child).\<close>

definition reexport_of_statement :: "string \<Rightarrow> syntax_node \<Rightarrow> import_declaration option" where
  "reexport_of_statement filePath exportNode =
     (case extractStringLiteral
             (case rev (namedChildren exportNode) of [] \<Rightarrow> None | l # _ \<Rightarrow> Some l) of
        None \<Rightarrow> None
      | Some src \<Rightarrow>
          if src = [] then None
          else
            let names =
                  (case child exportNode 1 of
                     Some exportClause \<Rightarrow>
                       if sn_type exportClause = ''export_clause''
                       then export_specifier_names exportClause
                       else if startsWith (sn_text exportNode) ''export *'' then [''*'']
                       else []
                   | None \<Rightarrow>
                       if startsWith (sn_text exportNode) ''export *'' then [''*''] else [])
            in Some (plain_import (normalizeImportPath src filePath) names
                       (sn_row exportNode + 1)))"

text \<open>\<^verbatim>\<open>findRequireCalls\<close>: source and line of every \<^verbatim>\<open>require("...")\<close> call.\<close>

definition require_of_call :: "syntax_node \<Rightarrow> (string \<times> nat) option" where
  "require_of_call call =
     (case childForFieldName call ''function'' of
        None \<Rightarrow> None
      | Some func \<Rightarrow>
          if sn_text func = ''require'' then
            (case childForFieldName call ''arguments'' of
               None \<Rightarrow> None
             | Some args \<Rightarrow>
                 if length (sn_children args) > 0 then
                   (case child args 1 of
                      None \<Rightarrow> None
                    | Some firstArg \<Rightarrow>
                        (case extractStringLiteral (Some firstArg) of
                           None \<Rightarrow> None
                         | Some src \<Rightarrow>
                             if src \<noteq> [] then Some (src, sn_row call + 1) else None))
                 else None)
          else None)"

definition findRequireCalls :: "syntax_node \<Rightarrow> (string \<times> nat) list" where
  "findRequireCalls n =
     concat (map (\<lambda>call. case require_of_call call of Some r \<Rightarrow> [r] | None \<Rightarrow> [])
                 (findNodesByType n ''call_expression''))"

definition option_list :: "'a option \<Rightarrow> 'a list" where
  "option_list x = (case x of Some v \<Rightarrow> [v] | None \<Rightarrow> [])"

definition extractImports :: "syntax_node \<Rightarrow> string \<Rightarrow> import_declaration list" where
  "extractImports n filePath =
     concat (map (\<lambda>importNode. option_list (import_of_statement filePath importNode))
                 (findNodesByType n ''import_statement''))
     @ concat (map (\<lambda>exportNode. option_list (reexport_of_statement filePath exportNode))
                   (findNodesByType n ''export_statement''))
     @ map (\<lambda>req. plain_import (normalizeImportPath (fst req) filePath) [] (snd req))
           (findRequireCalls n)"

text \<open>What one \<^verbatim>\<open>export_statement\<close> adds to the export names.\<close>

definition exports_of_statement :: "syntax_node \<Rightarrow> string list" where
  "exports_of_statement exportNode =
     (case childForFieldName exportNode ''declaration'' of
        Some declaration \<Rightarrow>
          (case extractNameFromDeclaration declaration of
             Some name \<Rightarrow> if name \<noteq> [] then [name] else []
           | None \<Rightarrow> [])
      | None \<Rightarrow> [])
     @ (case child exportNode 1 of
          Some exportClause \<Rightarrow>
            if sn_type exportClause = ''export_clause''
            then export_specifier_names exportClause else []
        | None \<Rightarrow> [])"

definition extractExports :: "syntax_node \<Rightarrow> string list" where
  "extractExports n =
     (let exportNodes = findNodesByType n ''export_statement'';
          names = concat (map exports_of_statement exportNodes);
          defaultExports = filter (\<lambda>e. startsWith (sn_text e) ''export default'') exportNodes
      in dedup (if length defaultExports > 0 then names @ [''default''] else names))"

definition named_definitions :: "syntax_node \<Rightarrow> string \<Rightarrow> definition_kind \<Rightarrow> definition_entry list" where
  "named_definitions n ty kind =
     concat (map (\<lambda>d. case childForFieldName d ''name'' of
                         Some name \<Rightarrow>
                           [\<lparr>def_name = sn_text name, def_type = kind, def_line = sn_row d + 1,
                             def_exported = None\<rparr>]
                       | None \<Rightarrow> [])
                 (findNodesByType n ty))"

definition variable_definitions :: "syntax_node \<Rightarrow> definition_entry list" where
  "variable_definitions n =
     concat (map (\<lambda>varDecl.
                    concat (map (\<lambda>declarator.
                                   case childForFieldName declarator ''name'' of
                                     Some name \<Rightarrow>
                                       [\<lparr>def_name = sn_text name,
                                         def_type = (if startsWith (sn_text varDecl) ''const''
                                                     then DConst else DVariable),
                                         def_line = sn_row declarator + 1,
                                         def_exported = None\<rparr>]
                                   | None \<Rightarrow> [])
                                (findNodesByType varDecl ''variable_declarator'')))
                 (findNodesByType n ''lexical_declaration''))"

definition extractDefinitions :: "syntax_node \<Rightarrow> definition_entry list" where
  "extractDefinitions n =
     named_definitions n ''function_declaration'' DFunction
     @ named_definitions n ''class_declaration'' DClass
     @ named_definitions n ''type_alias_declaration'' DType
     @ named_definitions n ''interface_declaration'' DInterface
     @ variable_definitions n"

subsection \<open>The line-oriented fallback extractor\<close>

text \<open>\<^verbatim>\<open>/^import\s+(.*)\s+from\s+['"]([^'"]+)['"]/\<close>\<close>

definition rx_import :: rx where
  "rx_import =
     rx_seq [rx_lit ''import'', rx_plus rx_space, RGroup 1 (RStar rx_any), rx_plus rx_space,
             rx_lit ''from'', rx_plus rx_space, rx_quoted 2]"

text \<open>\<^verbatim>\<open>/^export\s+\*\s+from\s+['"]([^'"]+)['"]/\<close>\<close>

definition rx_exportFrom :: rx where
  "rx_exportFrom =
     rx_seq [rx_lit ''export'', rx_plus rx_space, rx_lit ''*'', rx_plus rx_space, rx_lit ''from'',
             rx_plus rx_space, rx_quoted 1]"

text \<open>\<^verbatim>\<open>/^export\s+\{([^}]+)\}\s+from\s+['"]([^'"]+)['"]/\<close>\<close>

definition rx_exportNamedFrom :: rx where
  "rx_exportNamedFrom =
     rx_seq [rx_lit ''export'', rx_plus rx_space, rx_lit ''{'',
             RGroup 1 (rx_plus (RSat (\<lambda>c. c \<noteq> CHR ''}''))), rx_lit ''}'', rx_plus rx_space,
             rx_lit ''from'', rx_plus rx_space, rx_quoted 2]"

text \<open>\<^verbatim>\<open>/^export\s+(?:const|let|var|function|class|type|interface)\s+([A-Za-z0-9_]+)/\<close>\<close>

definition rx_export :: rx where
  "rx_export =
     rx_seq [rx_lit ''export'', rx_plus rx_space,
             rx_alt (map rx_lit [''const'', ''let'', ''var'', ''function'', ''class'', ''type'',
                                 ''interface'']),
             rx_plus rx_space, rx_ident 1]"

text \<open>\<^verbatim>\<open>/^(export\s+)?(function|class|interface|type|const|let|var)\s+([A-Za-z0-9_]+)/\<close>\<close>

definition rx_def :: rx where
  "rx_def =
     rx_seq [RAlt (RGroup 1 (RSeq (rx_lit ''export'') (rx_plus rx_space))) REps,
             RGroup 2 (rx_alt (map rx_lit [''function'', ''class'', ''interface'', ''type'',
                                           ''const'', ''let'', ''var''])),
             rx_plus rx_space, rx_ident 3]"

text \<open>\<^verbatim>\<open>s.replace(/^{|}$/g, '')\<close>: a leading \<^verbatim>\<open>{\<close> and a trailing \<^verbatim>\<open>}\<close> go.\<close>

definition strip_braces :: "string \<Rightarrow> string" where
  "strip_braces s =
     (let s1 = (case s of [] \<Rightarrow> [] | c # cs \<Rightarrow> if c = CHR ''{'' then cs else s)
      in if s1 \<noteq> [] \<and> last s1 = CHR ''}'' then butlast s1 else s1)"

definition comma_names :: "string \<Rightarrow> string list" where
  "comma_names s = filter_nonempty (map trim (split_char (CHR '','') s))"

definition fallback_import_names :: "string \<Rightarrow> string list" where
  "fallback_import_names rawNames =
     (if CHR ''{'' \<in> set rawNames \<and> CHR ''}'' \<in> set rawNames
      then comma_names (strip_braces rawNames)
      else if trim rawNames \<noteq> [] then [trim rawNames] else [])"

definition kind_of_keyword :: "string \<Rightarrow> definition_kind" where
  "kind_of_keyword kind =
     (if kind = ''function'' then DFunction
      else if kind = ''class'' then DClass
      else if kind = ''interface'' then DInterface
      else if kind = ''type'' then DType
      else if kind = ''const'' then DConst
      else DVariable)"

text \<open>The body of the \<^verbatim>\<open>forEach\<close> of \<^verbatim>\<open>extractFallback\<close> for one line.\<close>

definition fallback_line :: "string \<Rightarrow> nat \<times> string \<Rightarrow> extraction \<Rightarrow> extraction" where
  "fallback_line filePath nl acc =
     (case nl of (lineNo, line) \<Rightarrow>
      let acc1 =
            (case rx_match_start rx_import line of
               Some m \<Rightarrow>
                 acc\<lparr>ex_imports := ex_imports acc @
                        [plain_import (normalizeImportPath (capture m 2) filePath)
                           (fallback_import_names (capture m 1)) lineNo]\<rparr>
             | None \<Rightarrow> acc);
          acc2 =
            (case rx_search rx_require line of
               Some m \<Rightarrow>
                 acc1\<lparr>ex_imports := ex_imports acc1 @
                         [plain_import (normalizeImportPath (capture m 1) filePath) [] lineNo]\<rparr>
             | None \<Rightarrow> acc1);
          acc3 =
            (case rx_match_start rx_exportFrom line of
               Some m \<Rightarrow>
                 acc2\<lparr>ex_imports := ex_imports acc2 @
                         [plain_import (normalizeImportPath (capture m 1) filePath) [''*''] lineNo]\<rparr>
             | None \<Rightarrow> acc2);
          acc4 =
            (case rx_match_start rx_exportNamedFrom line of
               Some m \<Rightarrow>
                 acc3\<lparr>ex_imports := ex_imports acc3 @
                         [plain_import (normalizeImportPath (capture m 2) filePath)
                            (comma_names (capture m 1)) lineNo],
                       ex_exports := ex_exports acc3 @ comma_names (capture m 1)\<rparr>
             | None \<Rightarrow> acc3);
          acc5 =
            (case rx_match_start rx_export line of
               Some m \<Rightarrow> acc4\<lparr>ex_exports := ex_exports acc4 @ [capture m 1]\<rparr>
             | None \<Rightarrow> acc4)
      in (case rx_match_start rx_def line of
            Some m \<Rightarrow>
              acc5\<lparr>ex_definitions := ex_definitions acc5 @
                      [\<lparr>def_name = capture m 3, def_type = kind_of_keyword (capture m 2),
                        def_line = lineNo, def_exported = Some (capture_matched m 1)\<rparr>]\<rparr>
          | None \<Rightarrow> acc5))"

definition extractFallback :: "string \<Rightarrow> string \<Rightarrow> extraction" where
  "extractFallback content filePath =
     (let r = fold (fallback_line filePath) (numbered_lines content)
                \<lparr>ex_imports = [], ex_exports = [], ex_definitions = []\<rparr>
      in r\<lparr>ex_exports := dedup (ex_exports r)\<rparr>)"

subsection \<open>\<^verbatim>\<open>TypeScriptParserImpl.parse\<close>\<close>

text \<open>
  The file system and tree-sitter are outside the repository: \<open>readFile\<close> yields the
  content of a file, or nothing when it cannot be read; \<open>ts_parse\<close> yields the root of
  the tree for a content under the chosen grammar (\<open>True\<close> for the JSX-aware one), or
  nothing when the parser throws.
\<close>

record parser_env =
  readFile :: "string \<Rightarrow> string option"
  ts_parse :: "bool \<Rightarrow> string \<Rightarrow> syntax_node option"

datatype parse_error = UnreadableFile

definition parse :: "platform \<Rightarrow> parser_env \<Rightarrow> string \<Rightarrow> parse_error + parsed_file" where
  "parse pl env filePath =
     (case readFile env filePath of
        None \<Rightarrow> Inl UnreadableFile
      | Some content \<Rightarrow>
          let ext = p_extname pl filePath;
              tsx = (ext = ''.tsx'' \<or> ext = ''.jsx'');
              primary =
                (case ts_parse env tsx content of
                   Some rootNode \<Rightarrow>
                     \<lparr>ex_imports = extractImports rootNode filePath,
                      ex_exports = extractExports rootNode,
                      ex_definitions = extractDefinitions rootNode\<rparr>
                 | None \<Rightarrow> extractFallback content filePath);
              commonJsExtras = extractCommonJS content filePath;
              imports = ex_imports primary @ ex_imports commonJsExtras;
              exports = ex_exports primary @ ex_exports commonJsExtras;
              definitions = ex_definitions primary @ ex_definitions commonJsExtras;
              language =
                (if ext = ''.js'' \<or> ext = ''.jsx'' \<or> ext = ''.mjs'' \<or> ext = ''.cjs''
                 then JavaScript else TypeScript)
          in Inr \<lparr>pf_filePath = filePath, pf_language = language,
                  pf_imports = filter (\<lambda>imp. \<not> isExternalImport (imp_source imp)) imports,
                  pf_exports = exports, pf_definitions = definitions\<rparr>)"

subsection \<open>String methods used by the pattern detectors\<close>









subsection \<open>Pattern detectors (src/tools/detectPatterns.ts)\<close>














subsection \<open>The circular-dependency detector\<close>

record dfs_state =
  visited :: "string set"
  stack :: "string set"
  cycles :: "string list list"

text \<open>\<^verbatim>\<open>adjacency.get(node) || []\<close>.\<close>

definition neighbors_of :: "(string, string list) jsmap \<Rightarrow> string \<Rightarrow> string list" where
  "neighbors_of adjacency nd = (case map_get adjacency nd of Some l \<Rightarrow> l | None \<Rightarrow> [])"

text \<open>\<^verbatim>\<open>path.indexOf(x)\<close>; \<open>None\<close> is \<^verbatim>\<open>-1\<close>.\<close>

fun indexOf :: "'a list \<Rightarrow> 'a \<Rightarrow> nat option" where
  "indexOf [] x = None"
| "indexOf (y # ys) x = (if y = x then Some 0 else map_option Suc (indexOf ys x))"

text \<open>
  The closure \<^verbatim>\<open>dfs\<close> and its loop over the neighbours. The sets \<^verbatim>\<open>visited\<close> and
  \<^verbatim>\<open>stack\<close> and the list \<^verbatim>\<open>cycles\<close> that the closure mutates are the state; the
  \<^verbatim>\<open>path\<close> argument of \<open>dfs\<close> is the caller's copy, and \<open>dfs_neighbors\<close> works on the
  path with the node pushed.
\<close>

function dfs :: "(string, string list) jsmap \<Rightarrow> string \<Rightarrow> string list \<Rightarrow> dfs_state \<Rightarrow> dfs_state"
  and dfs_neighbors ::
    "(string, string list) jsmap \<Rightarrow> string list \<Rightarrow> string list \<Rightarrow> dfs_state \<Rightarrow> dfs_state" where
  "dfs adjacency nd path st =
     (let st2 = dfs_neighbors adjacency (path @ [nd]) (neighbors_of adjacency nd)
                  (st\<lparr>visited := insert nd (visited st), stack := insert nd (stack st)\<rparr>)
      in st2\<lparr>stack := stack st2 - {nd}\<rparr>)"
| "dfs_neighbors adjacency path [] st = st"
| "dfs_neighbors adjacency path (neighbor # rest) st =
     (if neighbor \<in> stack st then
        (case indexOf path neighbor of
           Some idx \<Rightarrow>
             dfs_neighbors adjacency path rest
               (st\<lparr>cycles := cycles st @ [drop idx path @ [neighbor]]\<rparr>)
         | None \<Rightarrow> dfs_neighbors adjacency path rest st)
      else if neighbor \<notin> visited st then
        dfs_neighbors adjacency path rest (dfs adjacency neighbor path st)
      else dfs_neighbors adjacency path rest st)"
  by pat_completeness auto

text \<open>Termination: a nested call marks a name of the adjacency that was not visited
  before, and visited names stay visited.\<close>

lemma visited_mono_dom:
  "dfs_dfs_neighbors_dom (Inl (adjacency, nd, path, st)) \<Longrightarrow>
     visited st \<subseteq> visited (dfs adjacency nd path st)"
  "dfs_dfs_neighbors_dom (Inr (adjacency, path, nbs, st)) \<Longrightarrow>
     visited st \<subseteq> visited (dfs_neighbors adjacency path nbs st)"
proof (induction adjacency nd path st and adjacency path nbs st rule: dfs_dfs_neighbors.pinduct)
  case (1 adjacency nd path st)
  then show ?case by (auto simp: dfs.psimps Let_def)
next
  case (2 adjacency path st)
  then show ?case by (simp add: dfs_neighbors.psimps)
next
  case (3 adjacency path neighbor rest st)
  then show ?case
    by (auto simp: dfs_neighbors.psimps split: option.splits if_splits)
qed

definition universe :: "(string, string list) jsmap \<Rightarrow> string set" where
  "universe adjacency = set (concat (map snd adjacency))"

lemma neighbors_universe: "set (neighbors_of adjacency nd) \<subseteq> universe adjacency"
proof (cases "map_of adjacency nd")
  case None
  then show ?thesis by (simp add: neighbors_of_def map_get_def)
next
  case (Some l)
  then have "(nd, l) \<in> set adjacency" by (rule map_of_SomeD)
  then have "set l \<subseteq> universe adjacency" by (force simp: universe_def)
  with Some show ?thesis by (simp add: neighbors_of_def map_get_def)
qed

lemma finite_universe: "finite (universe adjacency)"
  by (simp add: universe_def)

definition dfs_measure ::
  "(string, string list) jsmap \<times> string \<times> string list \<times> dfs_state
   + (string, string list) jsmap \<times> string list \<times> string list \<times> dfs_state \<Rightarrow> nat \<times> nat \<times> nat" where
  "dfs_measure x =
     (case x of
        Inl (adjacency, nd, path, st) \<Rightarrow>
          (card (universe adjacency - insert nd (visited st)), 1, 0)
      | Inr (adjacency, path, nbs, st) \<Rightarrow>
          (card ((universe adjacency \<union> set nbs) - visited st), 0, length nbs))"

lemma dfs_measure_skip:
  "(Inr (adjacency, path, rest, st\<lparr>cycles := cs\<rparr>), Inr (adjacency, path, neighbor # rest, st))
     \<in> inv_image (less_than <*lex*> less_than <*lex*> less_than) dfs_measure"
proof -
  have "card ((universe adjacency \<union> set rest) - visited st)
          \<le> card ((universe adjacency \<union> set (neighbor # rest)) - visited st)"
    by (rule card_mono) (auto simp: finite_universe)
  then show ?thesis by (auto simp: dfs_measure_def)
qed

termination dfs
proof (relation "inv_image (less_than <*lex*> less_than <*lex*> less_than) dfs_measure")
  show "wf (inv_image (less_than <*lex*> less_than <*lex*> less_than) dfs_measure)"
    by (intro wf_inv_image wf_lex_prod wf_less_than)
next
  fix adjacency nd path and st :: dfs_state
  have "(universe adjacency \<union> set (neighbors_of adjacency nd)) = universe adjacency"
    using neighbors_universe [of adjacency nd] by auto
  then show "(Inr (adjacency, path @ [nd], neighbors_of adjacency nd,
               st\<lparr>visited := insert nd (visited st), stack := insert nd (stack st)\<rparr>),
          Inl (adjacency, nd, path, st))
         \<in> inv_image (less_than <*lex*> less_than <*lex*> less_than) dfs_measure"
    by (simp add: dfs_measure_def)
next
  fix adjacency path neighbor rest and st :: dfs_state
  show "(Inr (adjacency, path, rest, st), Inr (adjacency, path, neighbor # rest, st))
         \<in> inv_image (less_than <*lex*> less_than <*lex*> less_than) dfs_measure"
    using dfs_measure_skip
      [where adjacency = adjacency and path = path and rest = rest and st = st
         and cs = "cycles st" and neighbor = neighbor]
    by simp
next
  fix adjacency path neighbor rest x2 and st :: dfs_state
  show "(Inr (adjacency, path, rest, st\<lparr>cycles := cycles st @ [drop x2 path @ [neighbor]]\<rparr>),
          Inr (adjacency, path, neighbor # rest, st))
         \<in> inv_image (less_than <*lex*> less_than <*lex*> less_than) dfs_measure"
    by (rule dfs_measure_skip)
next
  fix adjacency path neighbor rest and st :: dfs_state
  assume nv: "neighbor \<notin> visited st"
  have "universe adjacency - insert neighbor (visited st)
          \<subset> (universe adjacency \<union> set (neighbor # rest)) - visited st"
    using nv by auto
  then have "card (universe adjacency - insert neighbor (visited st))
          < card ((universe adjacency \<union> set (neighbor # rest)) - visited st)"
    by (intro psubset_card_mono) (auto simp: finite_universe)
  then show "(Inl (adjacency, neighbor, path, st), Inr (adjacency, path, neighbor # rest, st))
         \<in> inv_image (less_than <*lex*> less_than <*lex*> less_than) dfs_measure"
    by (simp add: dfs_measure_def)
next
  fix adjacency path neighbor rest and st :: dfs_state
  assume nv: "neighbor \<notin> visited st"
    and dom: "dfs_dfs_neighbors_dom (Inl (adjacency, neighbor, path, st))"
  have "visited st \<subseteq> visited (dfs adjacency neighbor path st)"
    using visited_mono_dom(1) [OF dom] .
  then have "card ((universe adjacency \<union> set rest) - visited (dfs adjacency neighbor path st))
          \<le> card ((universe adjacency \<union> set (neighbor # rest)) - visited st)"
    by (intro card_mono) (auto simp: finite_universe)
  then show "(Inr (adjacency, path, rest, dfs adjacency neighbor path st),
          Inr (adjacency, path, neighbor # rest, st))
         \<in> inv_image (less_than <*lex*> less_than <*lex*> less_than) dfs_measure"
    by (auto simp: dfs_measure_def)
next
  fix adjacency path neighbor rest and st :: dfs_state
  show "(Inr (adjacency, path, rest, st), Inr (adjacency, path, neighbor # rest, st))
         \<in> inv_image (less_than <*lex*> less_than <*lex*> less_than) dfs_measure"
    using dfs_measure_skip
      [where adjacency = adjacency and path = path and rest = rest and st = st
         and cs = "cycles st" and neighbor = neighbor]
    by simp
qed







subsection \<open>The graph-based and remaining detectors\<close>





record scored_file =
  sf_file :: string
  sf_indeg :: nat
  sf_outdeg :: nat
  sf_total :: nat



subsection \<open>\<^verbatim>\<open>detectPatterns\<close>\<close>






subsection \<open>Specification-side notions for clustering and normalisation\<close>

text \<open>The number of graph edges with both endpoints in the file set of a cluster.\<close>

definition internalEdgeCount :: "graph \<Rightarrow> string list \<Rightarrow> nat" where
  "internalEdgeCount g files =
     length (filter (\<lambda>e. e_source e \<in> set files \<and> e_target e \<in> set files) (edges g))"

text \<open>The files of all clusters below the size threshold, in cluster order.\<close>

definition small_files :: "cluster list \<Rightarrow> nat \<Rightarrow> string list" where
  "small_files cs minSize =
     concat (map cl_files (filter (\<lambda>c. length (cl_files c) < minSize) cs))"



subsection \<open>Relative import resolution, as the specification words it\<close>






subsection \<open>The PageRank recurrence, as the specification words it\<close>



subsection \<open>Walks and cycles of the forward adjacency\<close>








subsection \<open>The contract of \<^verbatim>\<open>detectPatterns\<close>, as the specification words it\<close>



subsection \<open>Sample data\<close>

definition mk_cluster :: "string \<Rightarrow> string list \<Rightarrow> cluster" where
  "mk_cluster cid fs =
     \<lparr>clusterId = cid, cl_name = cid, cl_files = fs, cl_description = None,
      cl_cohesion = Some 1, cl_pattern = None\<rparr>"

definition mk_edge :: "string \<Rightarrow> string \<Rightarrow> edge" where
  "mk_edge s t = \<lparr>e_source = s, e_target = t, e_imports = None\<rparr>"


definition mk_pf :: "string \<Rightarrow> string list \<Rightarrow> parsed_file" where
  "mk_pf p srcs =
     \<lparr>pf_filePath = p, pf_language = TypeScript,
      pf_imports = map (\<lambda>s. \<lparr>imp_source = s, imp_names = [], imp_isDefault = None,
                              imp_isNamespace = None, imp_line = Some 1\<rparr>) srcs,
      pf_exports = [], pf_definitions = []\<rparr>"

definition no_files :: "string \<Rightarrow> bool" where
  "no_files p = False"

definition ops_ex :: "builder_op list" where
  "ops_ex = [AddNode (mk_pf ''/r/a.ts'' []), AddNode (mk_pf ''/r/b.ts'' []),
             AddEdge ''/r/a.ts'' ''/r/b.ts'' None, AddEdge ''/r/a.ts'' ''/r/b.ts'' None,
             AddEdge ''/r/a.ts'' ''/r/c.ts'' None]"





definition sq :: string where
  "sq = [CHR 0x27]"

text \<open>The fixture \<^verbatim>\<open>tests/fixtures/typescript/simple.ts\<close>.\<close>

definition simple_ts :: string where
  "simple_ts =
     ''import path from '' @ sq @ ''path'' @ sq @ '';\<newline>''
     @ ''import { helper } from '' @ sq @ ''./helper'' @ sq @ '';\<newline>''
     @ ''\<newline>''
     @ ''export const value = 42;\<newline>''
     @ ''\<newline>''
     @ ''export default function greet(name: string) {\<newline>''
     @ ''  return `Hello ${name} ${path.basename(helper)}`;\<newline>''
     @ ''}\<newline>''"

definition leaf :: "string \<Rightarrow> string \<Rightarrow> bool \<Rightarrow> nat \<Rightarrow> string option \<Rightarrow> syntax_node" where
  "leaf ty tx nm row fld = SyntaxNode ty tx nm row fld []"

text \<open>The part of the fixture's tree that the extractors read: the two import
  statements and the two export statements.\<close>

definition simple_tree :: syntax_node where
  "simple_tree =
     SyntaxNode ''program'' simple_ts True 0 None
       [SyntaxNode ''import_statement'' (''import path from '' @ sq @ ''path'' @ sq @ '';'') True 0 None
          [leaf ''import'' ''import'' False 0 None,
           SyntaxNode ''import_clause'' ''path'' True 0 None
             [leaf ''identifier'' ''path'' True 0 None],
           leaf ''from'' ''from'' False 0 None,
           leaf ''string'' (sq @ ''path'' @ sq) True 0 (Some ''source''),
           leaf '';'' '';'' False 0 None],
        SyntaxNode ''import_statement''
            (''import { helper } from '' @ sq @ ''./helper'' @ sq @ '';'') True 1 None
          [leaf ''import'' ''import'' False 1 None,
           SyntaxNode ''import_clause'' ''{ helper }'' True 1 None
             [SyntaxNode ''named_imports'' ''{ helper }'' True 1 None
                [leaf ''{'' ''{'' False 1 None,
                 SyntaxNode ''import_specifier'' ''helper'' True 1 None
                   [leaf ''identifier'' ''helper'' True 1 (Some ''name'')],
                 leaf ''}'' ''}'' False 1 None]],
           leaf ''from'' ''from'' False 1 None,
           leaf ''string'' (sq @ ''./helper'' @ sq) True 1 (Some ''source''),
           leaf '';'' '';'' False 1 None],
        SyntaxNode ''export_statement'' ''export const value = 42;'' True 3 None
          [leaf ''export'' ''export'' False 3 None,
           SyntaxNode ''lexical_declaration'' ''const value = 42;'' True 3 (Some ''declaration'')
             [leaf ''const'' ''const'' False 3 None,
              SyntaxNode ''variable_declarator'' ''value = 42'' True 3 None
                [leaf ''identifier'' ''value'' True 3 (Some ''name''),
                 leaf ''='' ''='' False 3 None,
                 leaf ''number'' ''42'' True 3 (Some ''value'')],
              leaf '';'' '';'' False 3 None]],
        SyntaxNode ''export_statement'' ''export default function greet(name: string) {}'' True 5 None
          [leaf ''export'' ''export'' False 5 None,
           leaf ''default'' ''default'' False 5 None,
           SyntaxNode ''function_declaration'' ''function greet(name: string) {}'' True 5
               (Some ''declaration'')
             [leaf ''function'' ''function'' False 5 None,
              leaf ''identifier'' ''greet'' True 5 (Some ''name'')]]]"

definition simple_env :: parser_env where
  "simple_env =
     \<lparr>readFile = (\<lambda>p. if p = ''/r/src/simple.ts'' then Some simple_ts else None),
      ts_parse = (\<lambda>tsx content. if content = simple_ts then Some simple_tree else None)\<rparr>"

definition simple_parsed :: parsed_file where
  "simple_parsed =
     \<lparr>pf_filePath = ''/r/src/simple.ts'', pf_language = TypeScript,
      pf_imports = [\<lparr>imp_source = ''./helper'', imp_names = [''helper''],
                     imp_isDefault = Some False, imp_isNamespace = Some False,
                     imp_line = Some 2\<rparr>],
      pf_exports = [''greet'', ''default''],
      pf_definitions =
        [\<lparr>def_name = ''greet'', def_type = DFunction, def_line = 6, def_exported = None\<rparr>,
         \<lparr>def_name = ''value'', def_type = DConst, def_line = 4, def_exported = None\<rparr>]\<rparr>"

text \<open>A CommonJS module that assigns the same export on two lines.\<close>

definition io_js :: string where
  "io_js = ''exports.read = fast;\<newline>exports.read = slow;\<newline>''"

definition io_env :: "(bool \<Rightarrow> string \<Rightarrow> syntax_node option) \<Rightarrow> parser_env" where
  "io_env tsp =
     \<lparr>readFile = (\<lambda>p. if p = ''/r/lib/io.js'' then Some io_js else None), ts_parse = tsp\<rparr>"




section \<open>Verification\<close>

subsection \<open>Cluster cohesion\<close>

lemma count_internal_filter:
  "count_internal S es n = n + length (filter (\<lambda>e. e_source e \<in> S \<and> e_target e \<in> S) es)"
  by (induction es arbitrary: n) auto

text \<open>
  C5 (as amended). The cohesion of a cluster with at least two files is the number of
  graph edges with both endpoints in the cluster's file set, divided by
  \<open>|files| * (|files| - 1)\<close>; for a cluster with at most one file, the empty cluster
  included, it is 1.
\<close>

theorem cohesion_formula:
  "calculateCohesion g files =
     (if length files \<le> 1 then 1
      else real (internalEdgeCount g files) / real (length files * (length files - 1)))"
  by (auto simp: calculateCohesion_def internalEdgeCount_def count_internal_filter Let_def)

theorem cohesion_formula_witness:
  "calculateCohesion (createGraph\<lparr>edges := [mk_edge ''a'' ''b'', mk_edge ''b'' ''d'']\<rparr>)
     [''a'', ''b'', ''c''] = 1 / 6"
  using cohesion_formula [of "createGraph\<lparr>edges := [mk_edge ''a'' ''b'', mk_edge ''b'' ''d'']\<rparr>"
      "[''a'', ''b'', ''c'']"]
  by (simp add: internalEdgeCount_def createGraph_def mk_edge_def)

text \<open>The claim as stated gives the empty cluster cohesion 0; the code returns 1.\<close>

theorem cohesion_empty_counterexample:
  "calculateCohesion createGraph [] = 1 \<and> calculateCohesion createGraph [] \<noteq> 0"
  by (simp add: calculateCohesion_def)

subsection \<open>Merging small clusters\<close>

lemma merge_loop_filter:
  "merge_loop cs m (L, S) =
     (L @ filter (\<lambda>c. m \<le> length (cl_files c)) cs,
      S @ concat (map cl_files (filter (\<lambda>c. length (cl_files c) < m) cs)))"
  by (induction cs arbitrary: L S) (auto simp: not_le)

lemma mergeSmallClusters_eq:
  "mergeSmallClusters cs m =
     filter (\<lambda>c. m \<le> length (cl_files c)) cs @
     (if small_files cs m = [] then [] else [other_cluster (small_files cs m)])"
  by (simp add: mergeSmallClusters_def merge_loop_filter small_files_def)

lemma mset_split_files:
  "mset (concat (map cl_files (filter (\<lambda>c. m \<le> length (cl_files c)) cs))) + mset (small_files cs m)
     = mset (concat (map cl_files cs))"
  unfolding small_files_def
  by (induction cs) (auto simp: not_le)

lemma mset_merge_files:
  "mset (concat (map cl_files (mergeSmallClusters cs m))) = mset (concat (map cl_files cs))"
proof -
  have "cl_files (other_cluster (small_files cs m)) = small_files cs m"
    by (simp add: other_cluster_def)
  then show ?thesis
    using mset_split_files [of m cs]
    by (cases "small_files cs m = []") (auto simp: mergeSmallClusters_eq)
qed

text \<open>
  C6. \<^verbatim>\<open>mergeSmallClusters\<close> keeps the clusters with at least \<open>minSize\<close> files
  unchanged and in order, collects the files of all smaller clusters into one cluster
  named Other with cohesion 0, appended only when there are such files, and neither
  loses nor duplicates a file: when the input clusters partition a node set \<open>N\<close>, so
  do the output clusters.
\<close>

theorem mergeSmallClusters_partition:
  "mergeSmallClusters cs m =
     filter (\<lambda>c. m \<le> length (cl_files c)) cs @
     (if small_files cs m = [] then [] else [other_cluster (small_files cs m)])
   \<and> cl_files (other_cluster (small_files cs m)) = small_files cs m
   \<and> cl_name (other_cluster (small_files cs m)) = ''Other''
   \<and> cl_cohesion (other_cluster (small_files cs m)) = Some 0
   \<and> mset (concat (map cl_files (mergeSmallClusters cs m))) = mset (concat (map cl_files cs))
   \<and> (distinct (concat (map cl_files cs)) \<and> set (concat (map cl_files cs)) = N \<longrightarrow>
        distinct (concat (map cl_files (mergeSmallClusters cs m)))
        \<and> set (concat (map cl_files (mergeSmallClusters cs m))) = N)"
proof -
  have d: "distinct (concat (map cl_files (mergeSmallClusters cs m))) = distinct (concat (map cl_files cs))"
    using mset_merge_files [of cs m] by (metis mset_eq_imp_distinct_iff)
  have s: "set (concat (map cl_files (mergeSmallClusters cs m))) = set (concat (map cl_files cs))"
    using mset_merge_files [of cs m] by (metis mset_eq_setD)
  show ?thesis
    using d s mset_merge_files [of cs m] mergeSmallClusters_eq [of cs m]
    by (simp add: other_cluster_def)
qed

theorem mergeSmallClusters_partition_witness:
  "distinct (concat (map cl_files [mk_cluster ''src'' [''a'', ''b'', ''c''], mk_cluster ''lib'' [''d'']]))
   \<and> mergeSmallClusters_default [mk_cluster ''src'' [''a'', ''b'', ''c''], mk_cluster ''lib'' [''d'']]
       = [mk_cluster ''src'' [''a'', ''b'', ''c''], other_cluster [''d'']]
   \<and> distinct (concat (map cl_files
         (mergeSmallClusters [mk_cluster ''src'' [''a'', ''b'', ''c''], mk_cluster ''lib'' [''d'']] 3)))
   \<and> set (concat (map cl_files
         (mergeSmallClusters [mk_cluster ''src'' [''a'', ''b'', ''c''], mk_cluster ''lib'' [''d'']] 3)))
       = {''a'', ''b'', ''c'', ''d''}"
  using mergeSmallClusters_partition
    [of "[mk_cluster ''src'' [''a'', ''b'', ''c''], mk_cluster ''lib'' [''d'']]" 3
        "{''a'', ''b'', ''c'', ''d''}"]
  by (simp add: mk_cluster_def small_files_def mergeSmallClusters_default_def)

subsection \<open>Score normalisation\<close>














subsection \<open>The graph builder keeps the graph well-formed\<close>

lemma map_has_map_set: "map_has (map_set k v m) k' = (k' = k \<or> map_has m k')"
  by (induction m) (auto simp: map_has_def)

lemma indexFile_graph: "b_graph (indexFile pl b f) = b_graph b"
  by (simp add: indexFile_def Let_def)

lemma addNode_edges: "edges (b_graph (addNode pl b pf)) = edges (b_graph b)"
  by (simp add: addNode_def Let_def indexFile_graph)

lemma addNode_nodes:
  "map_has (nodes (b_graph b)) k \<Longrightarrow> map_has (nodes (b_graph (addNode pl b pf))) k"
  by (simp add: addNode_def Let_def indexFile_graph map_has_map_set)

lemma wf_addNode: "wf_graph (b_graph b) \<Longrightarrow> wf_graph (b_graph (addNode pl b pf))"
  unfolding wf_graph_def by (simp add: addNode_edges addNode_nodes)

lemma find_pair_None:
  "(find (\<lambda>e. e_source e = s \<and> e_target e = t) es = None) =
     ((s, t) \<notin> set (map (\<lambda>e. (e_source e, e_target e)) es))"
  by (induction es) auto

lemma wf_addEdge: "wf_graph (b_graph b) \<Longrightarrow> wf_graph (b_graph (addEdge b s t i))"
  unfolding wf_graph_def addEdge_def Let_def
  by (auto simp: find_pair_None)

lemma addEdge_present:
  "(s, t) \<in> set (map (\<lambda>e. (e_source e, e_target e)) (edges (b_graph b))) \<Longrightarrow> addEdge b s t i = b"
  using find_pair_None [of s t "edges (b_graph b)"]
  by (auto simp: addEdge_def Let_def)

lemma addEdge_unregistered:
  "\<not> map_has (nodes (b_graph b)) s \<or> \<not> map_has (nodes (b_graph b)) t \<Longrightarrow> addEdge b s t i = b"
  by (auto simp: addEdge_def Let_def)

lemma wf_processImports_loop:
  "wf_graph (b_graph b) \<Longrightarrow> wf_graph (b_graph (processImports_loop pl f imps b))"
  by (induction imps arbitrary: b) (auto simp: wf_addEdge split: option.splits)

lemma wf_processImports: "wf_graph (b_graph b) \<Longrightarrow> wf_graph (b_graph (processImports pl b pf))"
  by (simp add: processImports_def wf_processImports_loop)

lemma wf_apply_op: "wf_graph (b_graph b) \<Longrightarrow> wf_graph (b_graph (apply_op pl op b))"
  by (cases op) (simp_all add: wf_addNode wf_addEdge wf_processImports)

lemma wf_new_builder: "wf_graph (b_graph (new_builder pl r))"
  by (simp add: new_builder_def createGraph_def wf_graph_def)

lemma wf_fold_ops: "wf_graph (b_graph b) \<Longrightarrow> wf_graph (b_graph (fold (apply_op pl) ops b))"
  by (induction ops arbitrary: b) (simp_all add: wf_apply_op)

lemma wf_fold_addNode:
  "wf_graph (b_graph b) \<Longrightarrow> wf_graph (b_graph (fold (\<lambda>pf b. addNode pl b pf) pfs b))"
  by (induction pfs arbitrary: b) (simp_all add: wf_addNode)

lemma wf_fold_processImports:
  "wf_graph (b_graph b) \<Longrightarrow> wf_graph (b_graph (fold (\<lambda>pf b. processImports pl b pf) pfs b))"
  by (induction pfs arbitrary: b) (simp_all add: wf_processImports)

text \<open>
  C1. Every graph a builder holds after any sequence of \<^verbatim>\<open>addNode\<close>, \<^verbatim>\<open>addEdge\<close>
  and \<^verbatim>\<open>processImports\<close> calls, and every graph \<^verbatim>\<open>buildGraph\<close> returns, is
  well-formed: both endpoints of every stored edge are keys of the nodes map, and no
  two stored edges have the same (source, target) pair. \<^verbatim>\<open>addEdge\<close> with a pair that
  is already stored, or with an endpoint that is not a registered node, returns the
  builder unchanged (edges and both adjacency maps included).
\<close>

theorem graph_builder_well_formed:
  "wf_graph (b_graph (run_ops pl rootOpt ops))
   \<and> wf_graph (buildGraph pl parsedFiles rootOpt)
   \<and> ((s, t) \<in> set (map (\<lambda>e. (e_source e, e_target e)) (edges (b_graph b)))
        \<longrightarrow> addEdge b s t i = b)
   \<and> (\<not> map_has (nodes (b_graph b)) s \<or> \<not> map_has (nodes (b_graph b)) t
        \<longrightarrow> addEdge b s t i = b)"
proof (intro conjI impI)
  show "wf_graph (b_graph (run_ops pl rootOpt ops))"
    unfolding run_ops_def by (rule wf_fold_ops) (rule wf_new_builder)
  show "wf_graph (buildGraph pl parsedFiles rootOpt)"
    unfolding buildGraph_def build_def
    by (intro wf_fold_processImports wf_fold_addNode wf_new_builder)
next
  assume "(s, t) \<in> set (map (\<lambda>e. (e_source e, e_target e)) (edges (b_graph b)))"
  then show "addEdge b s t i = b" by (rule addEdge_present)
next
  assume "\<not> map_has (nodes (b_graph b)) s \<or> \<not> map_has (nodes (b_graph b)) t"
  then show "addEdge b s t i = b" by (rule addEdge_unregistered)
qed

lemma ops_ex_run:
  "b_graph (run_ops (posix_platform ''/r'' no_files) None ops_ex) =
     \<lparr>nodes = [(''/r/a.ts'', \<lparr>node_id = ''/r/a.ts'', node_filePath = ''/r/a.ts'',
                               node_language = TypeScript, node_definitions = Some 0\<rparr>),
               (''/r/b.ts'', \<lparr>node_id = ''/r/b.ts'', node_filePath = ''/r/b.ts'',
                               node_language = TypeScript, node_definitions = Some 0\<rparr>)],
      edges = [\<lparr>e_source = ''/r/a.ts'', e_target = ''/r/b.ts'', e_imports = None\<rparr>],
      adjacencyList = [(''/r/a.ts'', [''/r/b.ts''])],
      reverseAdjacencyList = [(''/r/b.ts'', [''/r/a.ts''])]\<rparr>"
  by (simp add: run_ops_def ops_ex_def new_builder_def createGraph_def addNode_def Let_def
      indexFile_graph addEdge_def map_has_def mk_pf_def push_to_def map_get_def)

theorem graph_builder_well_formed_witness:
  "wf_graph (b_graph (run_ops (posix_platform ''/r'' no_files) None ops_ex))
   \<and> map (\<lambda>e. (e_source e, e_target e))
         (edges (b_graph (run_ops (posix_platform ''/r'' no_files) None ops_ex)))
       = [(''/r/a.ts'', ''/r/b.ts'')]
   \<and> addEdge (run_ops (posix_platform ''/r'' no_files) None ops_ex) ''/r/a.ts'' ''/r/b.ts'' None
       = run_ops (posix_platform ''/r'' no_files) None ops_ex
   \<and> \<not> map_has (nodes (b_graph (run_ops (posix_platform ''/r'' no_files) None ops_ex))) ''/r/c.ts''
   \<and> addEdge (run_ops (posix_platform ''/r'' no_files) None ops_ex) ''/r/a.ts'' ''/r/c.ts'' None
       = run_ops (posix_platform ''/r'' no_files) None ops_ex"
  using graph_builder_well_formed
      [of "posix_platform ''/r'' no_files" None ops_ex _ "''/r/a.ts''" "''/r/b.ts''"
          "run_ops (posix_platform ''/r'' no_files) None ops_ex" None]
    graph_builder_well_formed
      [of "posix_platform ''/r'' no_files" None ops_ex _ "''/r/a.ts''" "''/r/c.ts''"
          "run_ops (posix_platform ''/r'' no_files) None ops_ex" None]
  by (simp add: ops_ex_run map_has_def)

subsection \<open>Resolution of relative imports\<close>







subsection \<open>PageRank computes the stated recurrence\<close>

















subsection \<open>The parser returns no external import\<close>

lemma simple_parse:
  "parse (posix_platform ''/r'' no_files) simple_env ''/r/src/simple.ts'' = Inr simple_parsed"
  by code_simp

lemma filePathMap_addEdge: "filePathMap (addEdge b s t i) = filePathMap b"
  by (simp add: addEdge_def Let_def)

lemma resolveImport_index_only:
  "filePathMap b' = filePathMap b \<Longrightarrow> resolveImport pl b' x f = resolveImport pl b x f"
  by (simp add: resolveImport_def)

lemma edges_addEdge:
  "e \<in> set (edges (b_graph (addEdge b s t i))) \<Longrightarrow>
   e \<in> set (edges (b_graph b)) \<or> (e_source e = s \<and> e_target e = t)"
  by (auto simp: addEdge_def Let_def split: if_splits)

lemma edges_processImports_loop:
  "e \<in> set (edges (b_graph (processImports_loop pl f imps b))) \<Longrightarrow>
   e \<in> set (edges (b_graph b))
   \<or> (\<exists>imp\<in>set imps. e_source e = f \<and> resolveImport pl b (imp_source imp) f = Some (e_target e))"
proof (induction imps arbitrary: b)
  case Nil
  then show ?case by simp
next
  case (Cons imp imps)
  show ?case
  proof (cases "resolveImport pl b (imp_source imp) f")
    case None
    with Cons.prems have "e \<in> set (edges (b_graph (processImports_loop pl f imps b)))" by simp
    from Cons.IH [OF this] show ?thesis by auto
  next
    case (Some target)
    show ?thesis
    proof (cases "target = []")
      case True
      with Some Cons.prems have "e \<in> set (edges (b_graph (processImports_loop pl f imps b)))"
        by simp
      from Cons.IH [OF this] show ?thesis by auto
    next
      case False
      let ?b' = "addEdge b f target (Some (imp_names imp))"
      from False Some Cons.prems
      have "e \<in> set (edges (b_graph (processImports_loop pl f imps ?b')))" by simp
      from Cons.IH [OF this]
      consider "e \<in> set (edges (b_graph ?b'))"
        | imp' where "imp' \<in> set imps" "e_source e = f"
            "resolveImport pl ?b' (imp_source imp') f = Some (e_target e)"
        by blast
      then show ?thesis
      proof cases
        case 1
        from edges_addEdge [OF this] Some show ?thesis by auto
      next
        case 2
        have "resolveImport pl ?b' (imp_source imp') f = resolveImport pl b (imp_source imp') f"
          by (rule resolveImport_index_only) (rule filePathMap_addEdge)
        with 2 show ?thesis by auto
      qed
    qed
  qed
qed

lemma parse_imports_internal:
  assumes "parse pl env filePath = Inr pf" and "imp \<in> set (pf_imports pf)"
  shows "\<not> isExternalImport (imp_source imp)"
  using assms
  by (auto simp: parse_def Let_def split: option.splits)

lemma parse_filePath:
  assumes "parse pl env filePath = Inr pf"
  shows "pf_filePath pf = filePath"
  using assms
  by (auto simp: parse_def Let_def split: option.splits)

text \<open>
  C7. Every import of a \<^verbatim>\<open>ParsedFile\<close> that the TypeScript/JavaScript parser returns
  has a specifier that starts with a dot or a slash: bare specifiers such as
  \<^verbatim>\<open>path\<close> are left out. Consequently every edge that \<^verbatim>\<open>processImports\<close> adds for
  such a file comes from one of its non-bare imports, resolved from the file's path:
  a bare specifier produces no edge.
\<close>

theorem parse_excludes_external_imports:
  assumes "parse pl env filePath = Inr pf"
  shows "(\<forall>imp\<in>set (pf_imports pf).
            startsWith (imp_source imp) ''.'' \<or> startsWith (imp_source imp) ''/'')
         \<and> isExternalImport ''path''
         \<and> (\<forall>e\<in>set (edges (b_graph (processImports pl' b pf))).
               e \<in> set (edges (b_graph b))
               \<or> (\<exists>imp\<in>set (pf_imports pf).
                     \<not> isExternalImport (imp_source imp)
                     \<and> e_source e = filePath
                     \<and> resolveImport pl' b (imp_source imp) filePath = Some (e_target e)))"
proof (intro conjI ballI)
  fix imp assume "imp \<in> set (pf_imports pf)"
  from parse_imports_internal [OF assms this]
  show "startsWith (imp_source imp) ''.'' \<or> startsWith (imp_source imp) ''/''"
    by (auto simp: isExternalImport_def)
next
  show "isExternalImport ''path''" by (simp add: isExternalImport_def startsWith_def)
next
  fix e assume "e \<in> set (edges (b_graph (processImports pl' b pf)))"
  then have "e \<in> set (edges (b_graph b))
      \<or> (\<exists>imp\<in>set (pf_imports pf). e_source e = pf_filePath pf
            \<and> resolveImport pl' b (imp_source imp) (pf_filePath pf) = Some (e_target e))"
    unfolding processImports_def by (rule edges_processImports_loop)
  then show "e \<in> set (edges (b_graph b))
      \<or> (\<exists>imp\<in>set (pf_imports pf).
            \<not> isExternalImport (imp_source imp)
            \<and> e_source e = filePath
            \<and> resolveImport pl' b (imp_source imp) filePath = Some (e_target e))"
    using parse_imports_internal [OF assms] parse_filePath [OF assms] by auto
qed

theorem parse_excludes_external_imports_witness:
  "parse (posix_platform ''/r'' no_files) simple_env ''/r/src/simple.ts'' = Inr simple_parsed
   \<and> map imp_source (pf_imports simple_parsed) = [''./helper'']
   \<and> \<not> isExternalImport ''./helper''
   \<and> isExternalImport ''path''"
  using parse_excludes_external_imports [OF simple_parse]
  by (simp add: simple_parse simple_parsed_def isExternalImport_def startsWith_def)

subsection \<open>Export names of a parsed file\<close>

lemma dedup_from_set: "set (dedup_from seen xs) = set xs - set seen"
  by (induction xs arbitrary: seen) auto

lemma dedup_from_distinct: "distinct (dedup_from seen xs)"
  by (induction xs arbitrary: seen) (auto simp: dedup_from_set)

lemma distinct_dedup: "distinct (dedup xs)"
  by (simp add: dedup_def dedup_from_distinct)


lemma extractExports_distinct: "distinct (extractExports n)"
  by (simp add: extractExports_def Let_def distinct_dedup)

lemma extractFallback_distinct: "distinct (ex_exports (extractFallback content filePath))"
  by (simp add: extractFallback_def Let_def distinct_dedup)

lemma io_commonjs: "ex_exports (extractCommonJS io_js filePath) = [''read'', ''read'']"
  by code_simp

text \<open>
  C8. The export names of a parsed file should contain no name twice. Both primary
  extractors deduplicate their names (\<open>extractExports_distinct\<close>,
  \<open>extractFallback_distinct\<close>), but \<^verbatim>\<open>parse\<close> appends the CommonJS names after
  that, without deduplicating: for the module \<open>io_js\<close>, whatever tree-sitter
  returns, the name \<^verbatim>\<open>read\<close> is listed at least twice.
\<close>

theorem parse_exports_not_deduplicated:
  "(case parse pl (io_env tsp) ''/r/lib/io.js'' of
      Inl err \<Rightarrow> False
    | Inr pf \<Rightarrow> \<not> distinct (pf_exports pf) \<and> count_list (pf_exports pf) ''read'' \<ge> 2)"
  by (simp add: parse_def io_env_def Let_def io_commonjs split: option.splits)

subsection \<open>The depth-first search finds a cycle exactly when there is one\<close>

declare dfs.simps [simp del] dfs_neighbors.simps [simp del]

































subsection \<open>\<^verbatim>\<open>detectPatterns\<close>: the missing-root error and the sorted findings\<close>







end
